theory Spec2Isabelle
  imports Main "HOL-Library.Word"
begin

unbundle bit_operations_syntax

section \<open>The CAT3626 LED dimmer driver (cat3626.c)\<close>

subsection \<open>Constants and data\<close>

type_synonym u8 = "8 word"

text \<open>The register addresses of the chip (the \<^verbatim>\<open>#define ADDR_...\<close> lines).\<close>

definition ADDR_REG_A :: u8 where "ADDR_REG_A = 0"
definition ADDR_REG_B :: u8 where "ADDR_REG_B = 1"
definition ADDR_REG_C :: u8 where "ADDR_REG_C = 2"
definition ADDR_REGEN :: u8 where "ADDR_REGEN = 3"

text \<open>
  Modelled from the spec: \<^verbatim>\<open>enum led_brightness\<close> and \<^verbatim>\<open>EINVAL\<close> come from kernel
  headers that are not part of the repository. The brightness enumeration has no negative
  member, so it is an unsigned 32-bit value; \<^verbatim>\<open>LED_OFF\<close> is 0 ("off"); \<^verbatim>\<open>EINVAL\<close>
  is 22.
\<close>

type_synonym led_brightness = "32 word"

definition LED_OFF :: led_brightness where "LED_OFF = 0"
definition EINVAL :: int where "EINVAL = 22"

text \<open>
  \<^verbatim>\<open>struct led_classdev\<close>: the fields the driver fills in. \<open>registered\<close> is the
  host's side of the device: set by \<^verbatim>\<open>led_classdev_register\<close>, cleared by
  \<^verbatim>\<open>led_classdev_unregister\<close>.
\<close>

record led_classdev =
  ldev_name :: string
  brightness :: led_brightness
  max_brightness :: int
  registered :: bool

text \<open>
  \<^verbatim>\<open>struct cat3626_led\<close>. The \<^verbatim>\<open>work_struct\<close> is its pending flag; \<open>partner\<close>
  points into the \<open>leds\<close> array of the same chip, so it is the index of the slot
  (\<open>None\<close> is the null pointer); \<open>client\<close> is the handle of the I2C client.
\<close>

record cat3626_led =
  led_id :: u8
  i2c_reg :: u8
  client :: nat
  name :: string
  ldev :: led_classdev
  work :: bool
  maximum_reg_value :: int
  present_reg_value :: int
  partner :: "nat option"

text \<open>\<^verbatim>\<open>struct cat3626_chip_info\<close> and the one entry of \<^verbatim>\<open>cat3626_chip_info_tbl\<close>.\<close>

record cat3626_chip_info =
  num_leds :: u8

definition cat3626_chip_info_tbl :: cat3626_chip_info where
  "cat3626_chip_info_tbl = \<lparr>num_leds = 6\<rparr>"

text \<open>
  \<^verbatim>\<open>struct cat3626_data\<close>: \<open>leds\<close> is the array \<^verbatim>\<open>leds[6]\<close>, a list of length 6.
  The mutex is not part of the sequential model.
\<close>

record cat3626_data =
  data_client :: nat
  leds :: "cat3626_led list"
  chip_info :: cat3626_chip_info

text \<open>\<^verbatim>\<open>struct cat3626_platform_data\<close> is its array of six descriptors.\<close>

type_synonym cat3626_platform_data = "cat3626_led list"

text \<open>An access to \<^verbatim>\<open>leds[i]\<close> with \<open>i\<close> outside \<open>0..5\<close>.\<close>

datatype fault = OutOfBounds int

subsection \<open>The register bus\<close>

text \<open>
  Modelled from the spec: the SMBus transfer functions \<^verbatim>\<open>i2c_smbus_read_byte_data\<close> and
  \<^verbatim>\<open>i2c_smbus_write_byte_data\<close> belong to the kernel, not to the repository. The
  spec's RegisterBus reads and writes one byte of a chip register or fails with a bus
  error. The bus state holds the chip's registers, the outcome of every transfer by its
  number (a negative value is the error code of a failed transfer), the number of
  transfers made so far, and the log of the write transfers issued, oldest first.
  A read returns the register's byte (0..255) or the negative error code; a write returns
  0 or the negative error code, and a failed write leaves the register as it was.
\<close>

record i2c_bus =
  regs :: "u8 \<Rightarrow> u8"
  xfer_result :: "nat \<Rightarrow> int"
  xfer_count :: nat
  wlog :: "(u8 \<times> u8) list"

definition i2c_smbus_read_byte_data :: "i2c_bus \<Rightarrow> u8 \<Rightarrow> int \<times> i2c_bus" where
  "i2c_smbus_read_byte_data bus command =
     (let e = xfer_result bus (xfer_count bus);
          bus' = bus\<lparr>xfer_count := Suc (xfer_count bus)\<rparr>
      in if e < 0 then (e, bus') else (uint (regs bus command), bus'))"

definition i2c_smbus_write_byte_data :: "i2c_bus \<Rightarrow> u8 \<Rightarrow> u8 \<Rightarrow> int \<times> i2c_bus" where
  "i2c_smbus_write_byte_data bus command v =
     (let e = xfer_result bus (xfer_count bus);
          bus' = bus\<lparr>xfer_count := Suc (xfer_count bus), wlog := wlog bus @ [(command, v)]\<rparr>
      in if e < 0 then (e, bus') else (0, bus'\<lparr>regs := (regs bus)(command := v)\<rparr>))"

text \<open>The next \<open>k\<close> transfers on the bus succeed.\<close>

definition xfers_ok :: "i2c_bus \<Rightarrow> nat \<Rightarrow> bool" where
  "xfers_ok bus k = (\<forall>i \<in> {0..<k}. 0 \<le> xfer_result bus (xfer_count bus + i))"

subsection \<open>\<^verbatim>\<open>cat3626_setled\<close>: the register update\<close>

text \<open>
  \<^verbatim>\<open>reg\<close> and \<^verbatim>\<open>toset\<close> are \<^verbatim>\<open>char\<close>: the 32-bit result of the read is cut to its low
  byte, with no test of its sign. The bit operations are done on the promoted 32-bit value
  and cut back to a byte. Neither write's result is looked at. The function only reads
  the LED.
\<close>

definition cat3626_setled :: "cat3626_led \<Rightarrow> i2c_bus \<Rightarrow> i2c_bus" where
  "cat3626_setled led bus =
     (let (r, bus1) = i2c_smbus_read_byte_data bus ADDR_REGEN;
          reg = (word_of_int r :: u8);
          toset = reg;
          toset =
            (if 0 = present_reg_value led
             then ucast ((ucast toset :: 32 word) AND NOT (push_bit (unat (led_id led)) 1))
             else ucast ((ucast toset :: 32 word) OR push_bit (unat (led_id led)) 1));
          bus2 =
            (if toset \<noteq> reg then snd (i2c_smbus_write_byte_data bus1 ADDR_REGEN toset)
             else bus1)
      in if present_reg_value led > 0
         then snd (i2c_smbus_write_byte_data bus2 (i2c_reg led)
                     (word_of_int (present_reg_value led)))
         else bus2)"

subsection \<open>\<^verbatim>\<open>cat3626_brightness_set\<close> and the work function\<close>

text \<open>
  \<^verbatim>\<open>schedule_work\<close> marks the LED's work item pending; the worker clears the flag and
  runs \<^verbatim>\<open>cat3626_led_work\<close>, which calls \<^verbatim>\<open>cat3626_setled\<close>.
\<close>

definition schedule_work :: "cat3626_led \<Rightarrow> cat3626_led" where
  "schedule_work led = led\<lparr>work := True\<rparr>"

definition cat3626_brightness_set :: "cat3626_led \<Rightarrow> led_brightness \<Rightarrow> cat3626_led" where
  "cat3626_brightness_set led v0 =
     (let v = drop_bit 3 v0;
          v = (if v > 39 then 39 else v)
      in schedule_work (led\<lparr>present_reg_value := sint v\<rparr>))"

definition cat3626_led_work :: "cat3626_led \<Rightarrow> i2c_bus \<Rightarrow> cat3626_led \<times> i2c_bus" where
  "cat3626_led_work led bus = (led\<lparr>work := False\<rparr>, cat3626_setled led bus)"

subsection \<open>Registration with the host and teardown\<close>

text \<open>
  Modelled from the spec: \<^verbatim>\<open>led_classdev_register\<close>, \<^verbatim>\<open>led_classdev_unregister\<close>,
  \<^verbatim>\<open>INIT_WORK\<close> and \<^verbatim>\<open>cancel_work_sync\<close> belong to the kernel, not to the repository.
  Registration returns the host's result code \<open>rc\<close>; a negative code is a failure and
  leaves the device unregistered. Unregistering clears the registration. Initialising a
  work item and cancelling-and-waiting both leave it not pending.
\<close>

definition led_classdev_register :: "int \<Rightarrow> led_classdev \<Rightarrow> int \<times> led_classdev" where
  "led_classdev_register rc cdev =
     (if rc < 0 then (rc, cdev) else (rc, cdev\<lparr>registered := True\<rparr>))"

definition led_classdev_unregister :: "led_classdev \<Rightarrow> led_classdev" where
  "led_classdev_unregister cdev = cdev\<lparr>registered := False\<rparr>"

definition INIT_WORK :: "bool \<Rightarrow> bool" where
  "INIT_WORK w = False"

definition cancel_work_sync :: "bool \<Rightarrow> bool" where
  "cancel_work_sync w = False"

text \<open>
  \<^verbatim>\<open>cat3626_destroy_devices\<close>: there is no loop in the source; the one slot touched is
  \<^verbatim>\<open>leds[n_devs]\<close>. \<open>None\<close> is the null \<^verbatim>\<open>data\<close> pointer.
\<close>

definition cat3626_destroy_devices ::
  "cat3626_data option \<Rightarrow> int \<Rightarrow> fault + int \<times> cat3626_data option" where
  "cat3626_destroy_devices data n_devs =
     (let i = n_devs in
      case data of
        None \<Rightarrow> Inr (- EINVAL, None)
      | Some d \<Rightarrow>
          if 0 \<le> i \<and> i < 6 then
            let led = leds d ! nat i;
                led = led\<lparr>ldev := led_classdev_unregister (ldev led)\<rparr>;
                led = led\<lparr>work := cancel_work_sync (work led)\<rparr>
            in Inr (0, Some (d\<lparr>leds := (leds d)[nat i := led]\<rparr>))
          else Inl (OutOfBounds i))"

subsection \<open>\<^verbatim>\<open>cat3626_configure\<close>\<close>

text \<open>The body of the first loop: the four assignments, in the source's order.\<close>

definition pair_leds :: "nat \<Rightarrow> cat3626_led list \<Rightarrow> cat3626_led list" where
  "pair_leds i ls =
     (let ls = ls[i := (ls ! i)\<lparr>partner := Some (i + 1)\<rparr>];
          ls = ls[i + 1 := (ls ! (i + 1))\<lparr>partner := Some i\<rparr>];
          ls = ls[i := (ls ! i)\<lparr>i2c_reg := of_nat (drop_bit 1 i)\<rparr>];
          ls = ls[i + 1 := (ls ! (i + 1))\<lparr>i2c_reg := of_nat (drop_bit 1 i)\<rparr>]
      in ls)"

function configure_partners :: "nat \<Rightarrow> nat \<Rightarrow> cat3626_led list \<Rightarrow> fault + cat3626_led list" where
  "configure_partners n i ls =
     (if i < n then
        if i + 1 < 6 then configure_partners n (i + 2) (pair_leds i ls)
        else Inl (OutOfBounds (if i < 6 then int i + 1 else int i))
      else Inr ls)"
  by pat_completeness auto
termination
  by (relation "measure (\<lambda>(n, i, ls). n - i)") auto

declare configure_partners.simps [simp del]

text \<open>The field assignments of the second loop up to \<^verbatim>\<open>INIT_WORK\<close>.\<close>

definition init_led :: "nat \<Rightarrow> nat \<Rightarrow> cat3626_led \<Rightarrow> cat3626_led \<Rightarrow> cat3626_led" where
  "init_led cl i pled led =
     (let led = led\<lparr>client := cl\<rparr>;
          led = led\<lparr>led_id := of_nat i\<rparr>;
          led = led\<lparr>name := name pled\<rparr>;
          led = led\<lparr>ldev := (ldev led)\<lparr>ldev_name := name led\<rparr>\<rparr>;
          led = led\<lparr>ldev := (ldev led)\<lparr>brightness := LED_OFF\<rparr>\<rparr>;
          led = led\<lparr>ldev := (ldev led)\<lparr>max_brightness := push_bit 3 39\<rparr>\<rparr>;
          led = led\<lparr>work := INIT_WORK (work led)\<rparr>
      in led)"

text \<open>
  The second loop. \<open>host i\<close> is the result code the host gives to the registration of
  channel \<open>i\<close>. On a failure the loop leaves through \<^verbatim>\<open>exit\<close>:
  \<^verbatim>\<open>cat3626_destroy_devices(data, i)\<close>, then the error code is returned.
\<close>

function configure_leds ::
  "(nat \<Rightarrow> int) \<Rightarrow> nat \<Rightarrow> cat3626_platform_data \<Rightarrow> nat \<Rightarrow> nat \<Rightarrow> cat3626_data \<Rightarrow> i2c_bus
     \<Rightarrow> fault + int \<times> cat3626_data \<times> i2c_bus" where
  "configure_leds host cl pdata n i d bus =
     (if i < n then
        if i < 6 then
          let led = init_led cl i (pdata ! i) (leds d ! i);
              (err, cdev) = led_classdev_register (host i) (ldev led);
              led = led\<lparr>ldev := cdev\<rparr>;
              d = d\<lparr>leds := (leds d)[i := led]\<rparr>
          in if err < 0 then
               (case cat3626_destroy_devices (Some d) (int i) of
                  Inl f \<Rightarrow> Inl f
                | Inr (r, None) \<Rightarrow> Inr (err, d, bus)
                | Inr (r, Some d') \<Rightarrow> Inr (err, d', bus))
             else configure_leds host cl pdata n (i + 1) d (cat3626_setled led bus)
        else Inl (OutOfBounds (int i))
      else Inr (0, d, bus))"
  by pat_completeness auto
termination
  by (relation "measure (\<lambda>(host, cl, pdata, n, i, d, bus). n - i)") auto

declare configure_leds.simps [simp del]

definition cat3626_configure ::
  "(nat \<Rightarrow> int) \<Rightarrow> nat \<Rightarrow> cat3626_data \<Rightarrow> cat3626_platform_data \<Rightarrow> i2c_bus
     \<Rightarrow> fault + int \<times> cat3626_data \<times> i2c_bus" where
  "cat3626_configure host cl data pdata bus =
     (let n = unat (num_leds (chip_info data)) in
      case configure_partners n 0 (leds data) of
        Inl f \<Rightarrow> Inl f
      | Inr ls \<Rightarrow> configure_leds host cl pdata n 0 (data\<lparr>leds := ls\<rparr>) bus)"

subsection \<open>\<^verbatim>\<open>cat3626_probe\<close> and \<^verbatim>\<open>cat3626_remove\<close>\<close>

text \<open>The zeroed memory that \<^verbatim>\<open>devm_kzalloc\<close> returns.\<close>

definition zero_led :: cat3626_led where
  "zero_led =
     \<lparr>led_id = 0, i2c_reg = 0, client = 0, name = [],
      ldev = \<lparr>ldev_name = [], brightness = 0, max_brightness = 0, registered = False\<rparr>,
      work = False, maximum_reg_value = 0, present_reg_value = 0, partner = None\<rparr>"

definition zero_data :: cat3626_data where
  "zero_data = \<lparr>data_client = 0, leds = replicate 6 zero_led, chip_info = \<lparr>num_leds = 0\<rparr>\<rparr>"

text \<open>
  \<^verbatim>\<open>cat3626_probe\<close> after its three early returns (no platform data, no SMBus byte
  transfers, no memory): the chip information is the table's entry, then
  \<^verbatim>\<open>cat3626_configure\<close> runs on the zeroed data.
\<close>

definition cat3626_probe ::
  "(nat \<Rightarrow> int) \<Rightarrow> nat \<Rightarrow> cat3626_platform_data \<Rightarrow> i2c_bus
     \<Rightarrow> fault + int \<times> cat3626_data \<times> i2c_bus" where
  "cat3626_probe host cl pdata bus =
     (let data = zero_data;
          data = data\<lparr>chip_info := cat3626_chip_info_tbl\<rparr>;
          data = data\<lparr>data_client := cl\<rparr>
      in cat3626_configure host cl data pdata bus)"

definition cat3626_remove :: "cat3626_data \<Rightarrow> fault + int \<times> cat3626_data option" where
  "cat3626_remove data =
     (case cat3626_destroy_devices (Some data) (uint (num_leds (chip_info data))) of
        Inl f \<Rightarrow> Inl f
      | Inr (err, d) \<Rightarrow> if err \<noteq> 0 then Inr (err, d) else Inr (0, d))"

subsection \<open>Sample inputs\<close>

text \<open>A bus on which every transfer succeeds, with all registers 0.\<close>

definition quiet_bus :: i2c_bus where
  "quiet_bus = \<lparr>regs = (\<lambda>a. 0), xfer_result = (\<lambda>n. 0), xfer_count = 0, wlog = []\<rparr>"

text \<open>The same bus, but its first transfer fails with \<open>-EIO\<close> (\<open>-5\<close>).\<close>

definition eio_bus :: i2c_bus where
  "eio_bus = quiet_bus\<lparr>xfer_result := (\<lambda>n. if n = 0 then - 5 else 0)\<rparr>"

text \<open>Channel \<open>i\<close> as configured, with the current level \<open>v\<close>.\<close>

definition sample_led :: "nat \<Rightarrow> int \<Rightarrow> cat3626_led" where
  "sample_led i v =
     zero_led\<lparr>led_id := of_nat i, i2c_reg := of_nat (i div 2), present_reg_value := v\<rparr>"

text \<open>A host that registers every channel, and one that refuses channel 1 with \<open>-ENOMEM\<close>.\<close>

definition host_ok :: "nat \<Rightarrow> int" where
  "host_ok i = 0"

definition host_refuses_1 :: "nat \<Rightarrow> int" where
  "host_refuses_1 i = (if i = 1 then - 12 else 0)"

definition sample_pdata :: cat3626_platform_data where
  "sample_pdata = map (\<lambda>s. zero_led\<lparr>name := s\<rparr>) [''a'', ''b'', ''c'', ''d'', ''e'', ''f'']"

text \<open>
  The enable byte as the spec words it: starting from the byte read, clear the channel's
  bit if the level is 0, else set it. \<open>setled_alt\<close> below shows that
  \<^verbatim>\<open>cat3626_setled\<close> computes this byte.
\<close>

definition new_enable :: "cat3626_led \<Rightarrow> u8 \<Rightarrow> u8" where
  "new_enable led enable_read =
     (if present_reg_value led = 0 then unset_bit (unat (led_id led)) enable_read
      else set_bit (unat (led_id led)) enable_read)"

text \<open>
  A bus on which every transfer succeeds; channels 0, 3 and 5 are enabled and the current
  registers hold 7.
\<close>

definition lit_bus :: i2c_bus where
  "lit_bus = quiet_bus\<lparr>regs := (\<lambda>a. if a = ADDR_REGEN then 41 else 7)\<rparr>"

subsection \<open>Channels after configuration\<close>

text \<open>
  What the two loops of \<^verbatim>\<open>cat3626_configure\<close> make of slot \<open>j\<close>: the first loop sets
  the partner and the current register (\<open>paired_led\<close>), the second fills in the other
  fields and, when the host accepts the registration, the device is registered
  (\<open>registered_led\<close>). The lemmas \<open>configure_partners_6\<close> and \<open>configure_leds_step\<close>
  below derive both from the loops.
\<close>

definition paired_led :: "nat \<Rightarrow> cat3626_led \<Rightarrow> cat3626_led" where
  "paired_led j led =
     led\<lparr>partner := Some (if even j then j + 1 else j - 1), i2c_reg := of_nat (j div 2)\<rparr>"

definition registered_led ::
  "nat \<Rightarrow> cat3626_platform_data \<Rightarrow> nat \<Rightarrow> cat3626_led \<Rightarrow> cat3626_led" where
  "registered_led cl pdata j led =
     (init_led cl j (pdata ! j) led)
       \<lparr>ldev := (ldev (init_led cl j (pdata ! j) led))\<lparr>registered := True\<rparr>\<rparr>"

text \<open>The data \<^verbatim>\<open>cat3626_probe\<close> hands to \<^verbatim>\<open>cat3626_configure\<close>.\<close>

definition probe_data :: "nat \<Rightarrow> cat3626_data" where
  "probe_data cl = zero_data\<lparr>chip_info := cat3626_chip_info_tbl, data_client := cl\<rparr>"

text \<open>
  The chip and the bus after \<^verbatim>\<open>cat3626_probe\<close> with a host that registers every channel,
  on the quiet bus.
\<close>

definition configured_data :: cat3626_data where
  "configured_data =
     (case cat3626_probe host_ok 0 sample_pdata quiet_bus of
        Inl f \<Rightarrow> zero_data | Inr (e, d, b) \<Rightarrow> d)"

definition configured_bus :: i2c_bus where
  "configured_bus =
     (case cat3626_probe host_ok 0 sample_pdata quiet_bus of
        Inl f \<Rightarrow> quiet_bus | Inr (e, d, b) \<Rightarrow> b)"

section \<open>Brightness quantisation\<close>

lemma sint_small: "(w :: 32 word) \<le> 39 \<Longrightarrow> sint w = int (unat w)"
proof -
  assume "w \<le> 39"
  then have "uint w \<le> 39" by (simp add: word_le_def)
  then have hi: "uint w < 2 ^ 31" by simp
  have "- (2 ^ 31) \<le> (0 :: int)" by simp
  also have "0 \<le> uint w" by simp
  finally have "signed_take_bit 31 (uint w) = uint w"
    using hi by (rule signed_take_bit_int_eq_self)
  then show ?thesis by (simp add: sint_uint)
qed

lemma unat_drop3: "unat (drop_bit 3 (v :: 32 word)) = unat v div 8"
  by (simp add: drop_bit_eq_div unat_div)

lemma drop3_gt: "((39 :: 32 word) < drop_bit 3 v) = (320 \<le> v)"
proof -
  have "((39 :: 32 word) < drop_bit 3 v) = (39 < unat v div 8)"
    by (simp add: word_less_nat_alt unat_drop3)
  also have "\<dots> = (320 \<le> unat v)" by auto
  also have "\<dots> = (320 \<le> v)" by (simp add: word_le_nat_alt)
  finally show ?thesis .
qed

text \<open>
  C2. For every brightness value \<open>v\<close> (so for every value in 0..255),
  \<^verbatim>\<open>cat3626_brightness_set\<close> stores exactly \<open>min (v >> 3) 39\<close> as the LED's current
  level; the stored level lies in 0..39; and the cap at 39 is taken exactly for the
  values from 320 on, none of which is in 0..255.
\<close>

theorem brightness_set_level:
  "present_reg_value (cat3626_brightness_set led v) = int (min (unat v div 8) 39)
   \<and> 0 \<le> present_reg_value (cat3626_brightness_set led v)
   \<and> present_reg_value (cat3626_brightness_set led v) \<le> 39
   \<and> ((39 < drop_bit 3 v) = (320 \<le> v))"
proof -
  have a: "present_reg_value (cat3626_brightness_set led v) = int (min (unat v div 8) 39)"
  proof (cases "39 < drop_bit 3 v")
    case True
    then have "39 < unat v div 8" by (simp add: word_less_nat_alt unat_drop3)
    with True show ?thesis by (simp add: cat3626_brightness_set_def schedule_work_def Let_def)
  next
    case False
    then have le: "drop_bit 3 v \<le> 39" by simp
    then have "unat v div 8 \<le> 39" by (simp add: word_le_nat_alt unat_drop3)
    with False le show ?thesis
      by (simp add: cat3626_brightness_set_def schedule_work_def Let_def sint_small unat_drop3)
  qed
  show ?thesis using a drop3_gt by simp
qed

section \<open>The register update\<close>

subsection \<open>What \<^verbatim>\<open>cat3626_setled\<close> does to the bus\<close>

lemma toset_clear:
  "(ucast ((ucast (r :: u8) :: 32 word) AND NOT (push_bit n 1)) :: u8) = unset_bit n r"
  by (rule bit_word_eqI) (auto simp add: bit_simps)

lemma toset_set:
  "(ucast ((ucast (r :: u8) :: 32 word) OR push_bit n 1) :: u8) = set_bit n r"
  by (rule bit_word_eqI) (auto simp add: bit_simps)

lemma setled_alt:
  "cat3626_setled led bus =
     (let (r, bus1) = i2c_smbus_read_byte_data bus ADDR_REGEN;
          reg = (word_of_int r :: u8);
          toset = new_enable led reg;
          bus2 =
            (if toset \<noteq> reg then snd (i2c_smbus_write_byte_data bus1 ADDR_REGEN toset)
             else bus1)
      in if present_reg_value led > 0
         then snd (i2c_smbus_write_byte_data bus2 (i2c_reg led)
                     (word_of_int (present_reg_value led)))
         else bus2)"
  unfolding cat3626_setled_def new_enable_def Let_def toset_clear toset_set
  by (cases "present_reg_value led = 0") (simp_all split: prod.splits)

lemma xfers_ok_3:
  assumes "xfers_ok bus 3"
  shows "0 \<le> xfer_result bus (xfer_count bus)"
    and "0 \<le> xfer_result bus (Suc (xfer_count bus))"
    and "0 \<le> xfer_result bus (Suc (Suc (xfer_count bus)))"
proof -
  have "\<And>i. i < 3 \<Longrightarrow> 0 \<le> xfer_result bus (xfer_count bus + i)"
    using assms by (simp add: xfers_ok_def)
  from this [of 0] this [of 1] this [of 2]
  show "0 \<le> xfer_result bus (xfer_count bus)"
    and "0 \<le> xfer_result bus (Suc (xfer_count bus))"
    and "0 \<le> xfer_result bus (Suc (Suc (xfer_count bus)))"
    by simp_all
qed

lemma setled_regs:
  assumes "xfers_ok bus 3"
  shows "regs (cat3626_setled led bus) =
     (if 0 < present_reg_value led
      then ((regs bus)(ADDR_REGEN := new_enable led (regs bus ADDR_REGEN)))
             (i2c_reg led := word_of_int (present_reg_value led))
      else (regs bus)(ADDR_REGEN := new_enable led (regs bus ADDR_REGEN)))"
  using xfers_ok_3 [OF assms]
  by (auto simp add: setled_alt i2c_smbus_read_byte_data_def
      i2c_smbus_write_byte_data_def Let_def)

lemma setled_wlog:
  assumes "xfers_ok bus 3"
  shows "wlog (cat3626_setled led bus) =
     wlog bus
     @ (if new_enable led (regs bus ADDR_REGEN) \<noteq> regs bus ADDR_REGEN
        then [(ADDR_REGEN, new_enable led (regs bus ADDR_REGEN))] else [])
     @ (if 0 < present_reg_value led
        then [(i2c_reg led, word_of_int (present_reg_value led))] else [])"
  using xfers_ok_3 [OF assms]
  by (auto simp add: setled_alt i2c_smbus_read_byte_data_def
      i2c_smbus_write_byte_data_def Let_def)

lemma setled_xfer_result: "xfer_result (cat3626_setled led bus) = xfer_result bus"
  by (simp add: setled_alt i2c_smbus_read_byte_data_def
      i2c_smbus_write_byte_data_def Let_def)

lemma setled_xfer_count:
  "xfer_count bus < xfer_count (cat3626_setled led bus)
   \<and> xfer_count (cat3626_setled led bus) \<le> xfer_count bus + 3"
  by (simp add: setled_alt i2c_smbus_read_byte_data_def
      i2c_smbus_write_byte_data_def Let_def)

lemma xfers_ok_setled:
  assumes "xfers_ok bus (k + 3)"
  shows "xfers_ok (cat3626_setled led bus) k"
  unfolding xfers_ok_def
proof
  fix i assume "i \<in> {0..<k}"
  define d where "d = xfer_count (cat3626_setled led bus) - xfer_count bus"
  have "d \<le> 3" and c: "xfer_count (cat3626_setled led bus) = xfer_count bus + d"
    using setled_xfer_count [of bus led] by (auto simp add: d_def)
  with \<open>i \<in> {0..<k}\<close> have "d + i \<in> {0..<k + 3}" by simp
  with assms have "0 \<le> xfer_result bus (xfer_count bus + (d + i))"
    unfolding xfers_ok_def by blast
  then show "0 \<le> xfer_result (cat3626_setled led bus) (xfer_count (cat3626_setled led bus) + i)"
    by (simp add: setled_xfer_result c add.assoc)
qed

lemma xfers_ok_mono: "xfers_ok bus k \<Longrightarrow> j \<le> k \<Longrightarrow> xfers_ok bus j"
  by (simp add: xfers_ok_def)


lemma channel_facts:
  assumes "ch < 6"
  shows "unat (of_nat ch :: u8) = ch" and "(of_nat (ch div 2) :: u8) \<noteq> ADDR_REGEN"
proof -
  show "unat (of_nat ch :: u8) = ch" using assms by (simp add: unat_of_nat)
  have "ch div 2 < 3" using assms by simp
  then have "unat (of_nat (ch div 2) :: u8) = ch div 2" by (simp add: unat_of_nat)
  moreover have "unat ADDR_REGEN = 3" by (simp add: ADDR_REGEN_def)
  ultimately show "(of_nat (ch div 2) :: u8) \<noteq> ADDR_REGEN" using \<open>ch div 2 < 3\<close> by auto
qed

lemma new_enable_idem: "new_enable led (new_enable led x) = new_enable led x"
  by (rule bit_word_eqI) (auto simp add: new_enable_def bit_simps)

lemma setled_regen:
  assumes "xfers_ok bus 3" and "i2c_reg led \<noteq> ADDR_REGEN"
  shows "regs (cat3626_setled led bus) ADDR_REGEN = new_enable led (regs bus ADDR_REGEN)"
  using assms by (simp add: setled_regs)

lemma setled_enable_lemma:
  assumes "ch < 6" and "led_id led = of_nat ch" and "i2c_reg led = of_nat (ch div 2)"
    and "0 \<le> present_reg_value led" and "xfers_ok bus 3"
  shows "bit (regs (cat3626_setled led bus) ADDR_REGEN) ch = (0 < present_reg_value led)"
    and "j \<noteq> ch \<Longrightarrow>
          bit (regs (cat3626_setled led bus) ADDR_REGEN) j = bit (regs bus ADDR_REGEN) j"
proof -
  have u: "unat (led_id led) = ch" and r: "i2c_reg led \<noteq> ADDR_REGEN"
    using assms(1-3) channel_facts by simp_all
  have e: "regs (cat3626_setled led bus) ADDR_REGEN = new_enable led (regs bus ADDR_REGEN)"
    using assms(5) r by (rule setled_regen)
  show "bit (regs (cat3626_setled led bus) ADDR_REGEN) ch = (0 < present_reg_value led)"
    using assms(1,4) by (auto simp add: e new_enable_def u bit_simps)
  show "j \<noteq> ch \<Longrightarrow>
          bit (regs (cat3626_setled led bus) ADDR_REGEN) j = bit (regs bus ADDR_REGEN) j"
    by (auto simp add: e new_enable_def u bit_simps)
qed

lemma setled_off_writes:
  assumes "present_reg_value led = 0"
  shows "list_all (\<lambda>w. fst w = ADDR_REGEN)
           (drop (length (wlog bus)) (wlog (cat3626_setled led bus)))"
  using assms
  by (simp add: setled_alt i2c_smbus_read_byte_data_def i2c_smbus_write_byte_data_def Let_def)

lemma setled_off_regs:
  assumes "present_reg_value led = 0" and "r \<noteq> ADDR_REGEN"
  shows "regs (cat3626_setled led bus) r = regs bus r"
  using assms
  by (simp add: setled_alt i2c_smbus_read_byte_data_def i2c_smbus_write_byte_data_def Let_def)


lemma eval_defs:
  "ADDR_REGEN = 3"
  "zero_led =
     \<lparr>led_id = 0, i2c_reg = 0, client = 0, name = [],
      ldev = \<lparr>ldev_name = [], brightness = 0, max_brightness = 0, registered = False\<rparr>,
      work = False, maximum_reg_value = 0, present_reg_value = 0, partner = None\<rparr>"
  "quiet_bus = \<lparr>regs = (\<lambda>a. 0), xfer_result = (\<lambda>n. 0), xfer_count = 0, wlog = []\<rparr>"
  by (simp_all add: ADDR_REGEN_def zero_led_def quiet_bus_def)

subsection \<open>The enable bit\<close>

text \<open>
  C1. For every channel \<open>ch\<close> in 0..5, configured (its id is \<open>ch\<close>, its current register
  is \<open>ch >> 1\<close>) with a level that is not negative, and for every starting enable byte: when
  the transfers of \<^verbatim>\<open>cat3626_setled\<close> succeed, bit \<open>ch\<close> of the enable register is set
  afterwards iff the level is above 0, and every other bit of the enable register is as
  it was before.
\<close>

theorem setled_enable_bit:
  assumes "ch < 6" and "led_id led = of_nat ch" and "i2c_reg led = of_nat (ch div 2)"
    and "0 \<le> present_reg_value led" and "xfers_ok bus 3"
  shows "bit (regs (cat3626_setled led bus) ADDR_REGEN) ch = (0 < present_reg_value led)
    \<and> (\<forall>j. j \<noteq> ch \<longrightarrow>
          bit (regs (cat3626_setled led bus) ADDR_REGEN) j = bit (regs bus ADDR_REGEN) j)"
  using setled_enable_lemma [OF assms] by simp

theorem setled_enable_bit_witness:
  "(2 :: nat) < 6 \<and> xfers_ok lit_bus 3
   \<and> regs lit_bus ADDR_REGEN = 41
   \<and> bit (regs (cat3626_setled (sample_led 2 10) lit_bus) ADDR_REGEN) 2
   \<and> bit (regs (cat3626_setled (sample_led 2 10) lit_bus) ADDR_REGEN) 3
   \<and> \<not> bit (regs (cat3626_setled (sample_led 2 10) lit_bus) ADDR_REGEN) 4"
proof -
  have x: "xfers_ok lit_bus 3" by (simp add: xfers_ok_def lit_bus_def quiet_bus_def)
  have b3: "bit (regs lit_bus ADDR_REGEN) 3" and b4: "\<not> bit (regs lit_bus ADDR_REGEN) 4"
    by (simp_all add: lit_bus_def quiet_bus_def)
  from setled_enable_bit [of 2 "sample_led 2 10" lit_bus] x
  have "bit (regs (cat3626_setled (sample_led 2 10) lit_bus) ADDR_REGEN) 2
    \<and> (\<forall>j. j \<noteq> 2 \<longrightarrow>
          bit (regs (cat3626_setled (sample_led 2 10) lit_bus) ADDR_REGEN) j
          = bit (regs lit_bus ADDR_REGEN) j)"
    by (simp add: sample_led_def zero_led_def)
  with x b3 b4 show ?thesis by (simp add: lit_bus_def quiet_bus_def)
qed

subsection \<open>A failed read\<close>

text \<open>
  C5, as the claim states it, fails: on a bus whose first transfer (the read of the enable
  register) fails with \<open>-5\<close>, \<^verbatim>\<open>cat3626_setled\<close> for channel 2 at level 10 still
  issues two writes.
\<close>

theorem setled_read_failure_still_writes:
  "fst (i2c_smbus_read_byte_data eio_bus ADDR_REGEN) = - 5
   \<and> wlog eio_bus = []
   \<and> wlog (cat3626_setled (sample_led 2 10) eio_bus) = [(ADDR_REGEN, 255), (1, 10)]"
  by (simp add: cat3626_setled_def i2c_smbus_read_byte_data_def i2c_smbus_write_byte_data_def
        sample_led_def eio_bus_def eval_defs)


text \<open>
  C5, amended. When the read of the enable register fails, \<^verbatim>\<open>cat3626_setled\<close> goes on
  with the low byte of the error code as the byte read: it issues the enable write when
  the byte it computes differs from that byte, and the current-register write when the
  level is above 0. The LED's level is as it was after the work function has run.
\<close>

theorem setled_read_failure:
  assumes "xfer_result bus (xfer_count bus) < 0"
  shows "wlog (cat3626_setled led bus) =
      wlog bus
      @ (if new_enable led (word_of_int (xfer_result bus (xfer_count bus)))
            \<noteq> word_of_int (xfer_result bus (xfer_count bus))
         then [(ADDR_REGEN, new_enable led (word_of_int (xfer_result bus (xfer_count bus))))]
         else [])
      @ (if 0 < present_reg_value led
         then [(i2c_reg led, word_of_int (present_reg_value led))] else [])
    \<and> present_reg_value (fst (cat3626_led_work led bus)) = present_reg_value led"
  using assms
  by (simp add: setled_alt cat3626_led_work_def i2c_smbus_read_byte_data_def
      i2c_smbus_write_byte_data_def Let_def)

theorem setled_read_failure_witness:
  "xfer_result eio_bus (xfer_count eio_bus) < 0
   \<and> wlog (cat3626_setled (sample_led 2 10) eio_bus) = [(ADDR_REGEN, 255), (1, 10)]
   \<and> present_reg_value (fst (cat3626_led_work (sample_led 2 10) eio_bus)) = 10"
proof -
  have f: "xfer_result eio_bus (xfer_count eio_bus) < 0"
    and v: "xfer_result eio_bus (xfer_count eio_bus) = - 5"
    by (simp_all add: eio_bus_def quiet_bus_def)
  have n: "new_enable (sample_led 2 10) (word_of_int (xfer_result eio_bus (xfer_count eio_bus)))
      = 255"
    by (simp add: v new_enable_def sample_led_def zero_led_def)
  have m: "(word_of_int (xfer_result eio_bus (xfer_count eio_bus)) :: u8) \<noteq> 255"
    by (simp add: v)
  have p: "present_reg_value (sample_led 2 10) = 10" "i2c_reg (sample_led 2 10) = 1"
    "wlog eio_bus = []"
    by (simp_all add: sample_led_def zero_led_def eio_bus_def quiet_bus_def)
  from setled_read_failure [OF f, of "sample_led 2 10"]
  have "wlog (cat3626_setled (sample_led 2 10) eio_bus) = [(ADDR_REGEN, 255), (1, 10)]
   \<and> present_reg_value (fst (cat3626_led_work (sample_led 2 10) eio_bus)) = 10"
    unfolding n p using m by simp
  with f show ?thesis by simp
qed

subsection \<open>The two channels of a pair\<close>

text \<open>
  C6. For \<open>k\<close> in 0..2, with both channels of the pair configured: after
  \<^verbatim>\<open>cat3626_setled\<close> for channel \<open>2k\<close> at level 10 and then for channel \<open>2k+1\<close> at level
  0, all transfers succeeding, the enable bit of channel \<open>2k\<close> is set, that of channel
  \<open>2k+1\<close> is clear, the current register \<open>k\<close> holds 10, and every write the second call
  issued went to the enable register.
\<close>

theorem partner_off_keeps_level:
  assumes "k < 3"
    and "led_id a = of_nat (2 * k)" and "i2c_reg a = of_nat k" and "present_reg_value a = 10"
    and "led_id b = of_nat (2 * k + 1)" and "i2c_reg b = of_nat k" and "present_reg_value b = 0"
    and "xfers_ok bus 6"
  shows "bit (regs (cat3626_setled b (cat3626_setled a bus)) ADDR_REGEN) (2 * k)
    \<and> \<not> bit (regs (cat3626_setled b (cat3626_setled a bus)) ADDR_REGEN) (2 * k + 1)
    \<and> regs (cat3626_setled b (cat3626_setled a bus)) (of_nat k) = 10
    \<and> list_all (\<lambda>w. fst w = ADDR_REGEN)
         (drop (length (wlog (cat3626_setled a bus)))
            (wlog (cat3626_setled b (cat3626_setled a bus))))"
proof -
  define bus1 where "bus1 = cat3626_setled a bus"
  define bus2 where "bus2 = cat3626_setled b bus1"
  have ka: "2 * k < 6" "(2 * k) div 2 = k" and kb: "2 * k + 1 < 6" "(2 * k + 1) div 2 = k"
    using assms(1) by simp_all
  have ok0: "xfers_ok bus 3" using assms(8) by (rule xfers_ok_mono) simp
  have ok1: "xfers_ok bus1 3"
    unfolding bus1_def using assms(8) xfers_ok_setled [of bus 3 a] by simp
  have a1: "bit (regs bus1 ADDR_REGEN) (2 * k)"
    unfolding bus1_def
    using setled_enable_lemma [of "2 * k" a bus] ka assms(2,3,4) ok0 by simp
  have b2: "\<not> bit (regs bus2 ADDR_REGEN) (2 * k + 1)"
    and b2': "\<And>j. j \<noteq> 2 * k + 1 \<Longrightarrow> bit (regs bus2 ADDR_REGEN) j = bit (regs bus1 ADDR_REGEN) j"
    unfolding bus2_def
    using setled_enable_lemma [of "2 * k + 1" b bus1] kb assms(5,6,7) ok1 by simp_all
  have a2: "bit (regs bus2 ADDR_REGEN) (2 * k)" using a1 b2' [of "2 * k"] by simp
  have kr: "(of_nat k :: u8) \<noteq> ADDR_REGEN" using channel_facts(2) [of "2 * k"] ka by simp
  have "regs bus1 (of_nat k) = 10"
    unfolding bus1_def using assms(3,4) by (simp add: setled_regs [OF ok0])
  then have c2: "regs bus2 (of_nat k) = 10"
    unfolding bus2_def using setled_off_regs [OF assms(7) kr, of bus1] by simp
  have w2: "list_all (\<lambda>w. fst w = ADDR_REGEN) (drop (length (wlog bus1)) (wlog bus2))"
    unfolding bus2_def using assms(7) by (rule setled_off_writes)
  from a2 b2 c2 w2 show ?thesis unfolding bus2_def bus1_def by simp
qed

theorem partner_off_keeps_level_witness:
  "(1 :: nat) < 3 \<and> xfers_ok lit_bus 6
   \<and> bit (regs (cat3626_setled (sample_led 3 0) (cat3626_setled (sample_led 2 10) lit_bus)) ADDR_REGEN) 2
   \<and> \<not> bit (regs (cat3626_setled (sample_led 3 0) (cat3626_setled (sample_led 2 10) lit_bus)) ADDR_REGEN) 3
   \<and> regs (cat3626_setled (sample_led 3 0) (cat3626_setled (sample_led 2 10) lit_bus)) 1 = 10
   \<and> wlog (cat3626_setled (sample_led 3 0) (cat3626_setled (sample_led 2 10) lit_bus))
       = [(ADDR_REGEN, 45), (1, 10), (ADDR_REGEN, 37)]"
proof -
  have x: "xfers_ok lit_bus 6" by (simp add: xfers_ok_def lit_bus_def quiet_bus_def)
  have w: "wlog (cat3626_setled (sample_led 3 0) (cat3626_setled (sample_led 2 10) lit_bus))
       = [(ADDR_REGEN, 45), (1, 10), (ADDR_REGEN, 37)]"
    by (simp add: cat3626_setled_def i2c_smbus_read_byte_data_def i2c_smbus_write_byte_data_def
        sample_led_def lit_bus_def eval_defs)
  from partner_off_keeps_level [of 1 "sample_led 2 10" "sample_led 3 0" lit_bus] x
  have "bit (regs (cat3626_setled (sample_led 3 0) (cat3626_setled (sample_led 2 10) lit_bus)) ADDR_REGEN) 2
   \<and> \<not> bit (regs (cat3626_setled (sample_led 3 0) (cat3626_setled (sample_led 2 10) lit_bus)) ADDR_REGEN) 3
   \<and> regs (cat3626_setled (sample_led 3 0) (cat3626_setled (sample_led 2 10) lit_bus)) 1 = 10"
    by (simp add: sample_led_def zero_led_def)
  with x w show ?thesis by simp
qed

subsection \<open>Applying twice\<close>

text \<open>
  C7. For a configured channel, when all transfers succeed, a second
  \<^verbatim>\<open>cat3626_setled\<close> right after the first leaves every register as the first left it:
  it issues no enable write, and its only write, made when the level is above 0, puts into
  the channel's current register the value that register already holds.
\<close>

theorem setled_twice:
  assumes "ch < 6" and "led_id led = of_nat ch" and "i2c_reg led = of_nat (ch div 2)"
    and "xfers_ok bus 6"
  shows "regs (cat3626_setled led (cat3626_setled led bus)) = regs (cat3626_setled led bus)
    \<and> wlog (cat3626_setled led (cat3626_setled led bus)) =
        wlog (cat3626_setled led bus)
        @ (if 0 < present_reg_value led
           then [(i2c_reg led, regs (cat3626_setled led bus) (i2c_reg led))] else [])"
proof -
  define bus1 where "bus1 = cat3626_setled led bus"
  have r: "i2c_reg led \<noteq> ADDR_REGEN" using assms(1,3) channel_facts by simp
  have ok0: "xfers_ok bus 3" using assms(4) by (rule xfers_ok_mono) simp
  have ok1: "xfers_ok bus1 3" unfolding bus1_def using assms(4) xfers_ok_setled [of bus 3 led] by simp
  have e: "regs bus1 ADDR_REGEN = new_enable led (regs bus ADDR_REGEN)"
    unfolding bus1_def using ok0 r by (rule setled_regen)
  have same: "new_enable led (regs bus1 ADDR_REGEN) = regs bus1 ADDR_REGEN"
    by (simp add: e new_enable_idem)
  have lvl: "0 < present_reg_value led \<Longrightarrow>
      regs bus1 (i2c_reg led) = word_of_int (present_reg_value led)"
    unfolding bus1_def by (simp add: setled_regs [OF ok0])
  have "regs (cat3626_setled led bus1) = regs bus1"
    using lvl by (auto simp add: setled_regs [OF ok1] same)
  moreover have "wlog (cat3626_setled led bus1) =
      wlog bus1 @ (if 0 < present_reg_value led then [(i2c_reg led, regs bus1 (i2c_reg led))] else [])"
    using lvl by (simp add: setled_wlog [OF ok1] same)
  ultimately show ?thesis unfolding bus1_def by simp
qed

theorem setled_twice_witness:
  "(2 :: nat) < 6 \<and> xfers_ok lit_bus 6
   \<and> regs (cat3626_setled (sample_led 2 10) (cat3626_setled (sample_led 2 10) lit_bus))
       = regs (cat3626_setled (sample_led 2 10) lit_bus)
   \<and> wlog (cat3626_setled (sample_led 2 10) lit_bus) = [(ADDR_REGEN, 45), (1, 10)]
   \<and> wlog (cat3626_setled (sample_led 2 10) (cat3626_setled (sample_led 2 10) lit_bus))
       = [(ADDR_REGEN, 45), (1, 10), (1, 10)]"
proof -
  have x: "xfers_ok lit_bus 6" by (simp add: xfers_ok_def lit_bus_def quiet_bus_def)
  have w: "wlog (cat3626_setled (sample_led 2 10) lit_bus) = [(ADDR_REGEN, 45), (1, 10)]"
    by (simp add: cat3626_setled_def i2c_smbus_read_byte_data_def i2c_smbus_write_byte_data_def
        sample_led_def lit_bus_def eval_defs)
  have r: "regs (cat3626_setled (sample_led 2 10) lit_bus) 1 = 10"
    by (simp add: cat3626_setled_def i2c_smbus_read_byte_data_def i2c_smbus_write_byte_data_def
        sample_led_def lit_bus_def eval_defs)
  from setled_twice [of 2 "sample_led 2 10" lit_bus] x
  have "regs (cat3626_setled (sample_led 2 10) (cat3626_setled (sample_led 2 10) lit_bus))
       = regs (cat3626_setled (sample_led 2 10) lit_bus)
    \<and> wlog (cat3626_setled (sample_led 2 10) (cat3626_setled (sample_led 2 10) lit_bus)) =
        wlog (cat3626_setled (sample_led 2 10) lit_bus)
        @ [(1, regs (cat3626_setled (sample_led 2 10) lit_bus) 1)]"
    by (simp add: sample_led_def zero_led_def)
  with x w r show ?thesis by simp
qed


section \<open>Configuration\<close>

subsection \<open>The two loops\<close>

lemma configure_leds_done:
  "\<not> i < n \<Longrightarrow> configure_leds host cl pdata n i d bus = Inr (0, d, bus)"
  by (simp add: configure_leds.simps)

lemma configure_leds_step:
  assumes "i < n" and "i < 6" and "0 \<le> host i"
  shows "configure_leds host cl pdata n i d bus =
     configure_leds host cl pdata n (Suc i)
       (d\<lparr>leds := (leds d)[i := registered_led cl pdata i (leds d ! i)]\<rparr>)
       (cat3626_setled (registered_led cl pdata i (leds d ! i)) bus)"
  using assms
  by (subst configure_leds.simps)
    (simp add: led_classdev_register_def registered_led_def Let_def)

lemma configure_leds_fail:
  assumes "i < n" and "i < 6" and "host i < 0" and "length (leds d) = 6"
  shows "configure_leds host cl pdata n i d bus =
     Inr (host i,
          d\<lparr>leds := (leds d)[i :=
               (init_led cl i (pdata ! i) (leds d ! i))
                 \<lparr>ldev := led_classdev_unregister (ldev (init_led cl i (pdata ! i) (leds d ! i))),
                  work := False\<rparr>]\<rparr>,
          bus)"
  using assms
  by (subst configure_leds.simps)
    (simp add: led_classdev_register_def cat3626_destroy_devices_def cancel_work_sync_def Let_def)

lemma configure_leds_success:
  assumes "configure_leds host cl pdata n i d bus = Inr (0, d', bus')"
    and "n \<le> 6" and "length (leds d) = 6"
  shows "length (leds d') = 6 \<and> chip_info d' = chip_info d
    \<and> (\<forall>j<6. leds d' ! j =
          (if i \<le> j \<and> j < n then registered_led cl pdata j (leds d ! j) else leds d ! j))"
  using assms
proof (induction "n - i" arbitrary: i d bus)
  case 0
  then have "\<not> i < n" by simp
  with 0 show ?case by (auto simp add: configure_leds_done)
next
  case (Suc m)
  then have lt: "i < n" "i < 6" by simp_all
  show ?case
  proof (cases "host i < 0")
    case True
    with Suc.prems lt show ?thesis by (simp add: configure_leds_fail)
  next
    case False
    define d1 where "d1 = d\<lparr>leds := (leds d)[i := registered_led cl pdata i (leds d ! i)]\<rparr>"
    define bus1 where "bus1 = cat3626_setled (registered_led cl pdata i (leds d ! i)) bus"
    from False lt Suc.prems(1)
    have run: "configure_leds host cl pdata n (Suc i) d1 bus1 = Inr (0, d', bus')"
      by (simp add: configure_leds_step d1_def bus1_def)
    have m: "m = n - Suc i" using Suc.hyps(2) by simp
    have len1: "length (leds d1) = 6" using Suc.prems(3) by (simp add: d1_def)
    from Suc.hyps(1) [OF m run Suc.prems(2) len1]
    have ih: "length (leds d') = 6" "chip_info d' = chip_info d1"
      "\<And>j. j < 6 \<Longrightarrow> leds d' ! j =
          (if Suc i \<le> j \<and> j < n then registered_led cl pdata j (leds d1 ! j) else leds d1 ! j)"
      by simp_all
    have "\<And>j. j < 6 \<Longrightarrow> leds d' ! j =
          (if i \<le> j \<and> j < n then registered_led cl pdata j (leds d ! j) else leds d ! j)"
    proof -
      fix j :: nat assume j: "j < 6"
      show "leds d' ! j =
          (if i \<le> j \<and> j < n then registered_led cl pdata j (leds d ! j) else leds d ! j)"
      proof (cases "j = i")
        case True
        with ih(3) [OF j] lt Suc.prems(3) show ?thesis by (simp add: d1_def)
      next
        case False
        with ih(3) [OF j] show ?thesis by (auto simp add: d1_def)
      qed
    qed
    with ih(1,2) show ?thesis by (simp add: d1_def)
  qed
qed

lemma length6:
  assumes "length xs = 6"
  obtains a b c d e f where "xs = [a, b, c, d, e, f]"
proof -
  from assms obtain a b c d e f r where "xs = a # b # c # d # e # f # r"
    by (auto simp add: length_Suc_conv numeral_eq_Suc)
  with assms that show thesis by simp
qed

lemma configure_partners_6:
  "configure_partners 6 0 [a, b, c, d, e, f] =
     Inr [a\<lparr>partner := Some 1, i2c_reg := 0\<rparr>, b\<lparr>partner := Some 0, i2c_reg := 0\<rparr>,
          c\<lparr>partner := Some 3, i2c_reg := 1\<rparr>, d\<lparr>partner := Some 2, i2c_reg := 1\<rparr>,
          e\<lparr>partner := Some 5, i2c_reg := 2\<rparr>, f\<lparr>partner := Some 4, i2c_reg := 2\<rparr>]"
  by (simp add: configure_partners.simps pair_leds_def drop_bit_eq_div)


lemma configure_success:
  assumes conf: "cat3626_configure host cl data pdata bus = Inr (0, data', bus')"
    and n: "num_leds (chip_info data) = 6" and len: "length (leds data) = 6"
  shows "length (leds data') = 6"
    and "j < 6 \<Longrightarrow> leds data' ! j = registered_led cl pdata j (paired_led j (leds data ! j))"
    and "chip_info data' = chip_info data"
proof -
  from len obtain a b c d e f where ls: "leds data = [a, b, c, d, e, f]" by (rule length6)
  define ps where "ps = [paired_led 0 a, paired_led 1 b, paired_led 2 c,
    paired_led 3 d, paired_led 4 e, paired_led 5 f]"
  have part: "configure_partners 6 0 (leds data) = Inr ps"
    by (simp add: ls configure_partners_6 ps_def paired_led_def)
  from conf have run: "configure_leds host cl pdata 6 0 (data\<lparr>leds := ps\<rparr>) bus = Inr (0, data', bus')"
    by (simp add: cat3626_configure_def n part)
  have "length (leds (data\<lparr>leds := ps\<rparr>)) = 6" by (simp add: ps_def)
  from configure_leds_success [OF run _ this]
  have r: "length (leds data') = 6"
    "\<And>j. j < 6 \<Longrightarrow> leds data' ! j = registered_led cl pdata j (ps ! j)"
    "chip_info data' = chip_info data"
    by simp_all
  show "length (leds data') = 6" by (rule r(1))
  show "chip_info data' = chip_info data" by (rule r(3))
  assume j: "j < 6"
  then consider "j = 0" | "j = 1" | "j = 2" | "j = 3" | "j = 4" | "j = 5" by linarith
  then have "ps ! j = paired_led j (leds data ! j)"
    by cases (simp_all add: ps_def ls)
  with r(2) [OF j] show "leds data' ! j = registered_led cl pdata j (paired_led j (leds data ! j))"
    by simp
qed

lemma registered_led_fields:
  "partner (registered_led cl pdata j led) = partner led"
  "i2c_reg (registered_led cl pdata j led) = i2c_reg led"
  "led_id (registered_led cl pdata j led) = of_nat j"
  "brightness (ldev (registered_led cl pdata j led)) = LED_OFF"
  "max_brightness (ldev (registered_led cl pdata j led)) = 312"
  "registered (ldev (registered_led cl pdata j led))"
  by (simp_all add: registered_led_def init_led_def INIT_WORK_def)

lemma drop_bit_id:
  assumes "k < 3"
  shows "drop_bit 1 (of_nat (2 * k) :: u8) = of_nat k"
    and "drop_bit 1 (of_nat (2 * k + 1) :: u8) = of_nat k"
proof -
  from assms consider "k = 0" | "k = 1" | "k = 2" by linarith
  then show "drop_bit 1 (of_nat (2 * k) :: u8) = of_nat k"
    by cases (simp_all add: drop_bit_eq_div)
  from assms consider "k = 0" | "k = 1" | "k = 2" by linarith
  then show "drop_bit 1 (of_nat (2 * k + 1) :: u8) = of_nat k"
    by cases (simp_all add: drop_bit_eq_div)
qed

lemma replicate6: "replicate 6 x = [x, x, x, x, x, x]"
  by (simp add: numeral_eq_Suc)

lemma probe_configure:
  "cat3626_probe host cl pdata bus = cat3626_configure host cl (probe_data cl) pdata bus"
  by (simp add: cat3626_probe_def probe_data_def Let_def)

lemma probe_data_facts:
  "num_leds (chip_info (probe_data cl)) = 6" "length (leds (probe_data cl)) = 6"
  "unat (num_leds (chip_info (probe_data cl))) = 6"
  by (simp_all add: probe_data_def zero_data_def cat3626_chip_info_tbl_def)

lemma probe_ok_runs:
  "\<exists>d b. cat3626_probe host_ok 0 sample_pdata quiet_bus = Inr (0, d, b)"
proof -
  obtain a b c d e f where ps: "configure_partners 6 0 (leds (probe_data 0)) = Inr [a, b, c, d, e, f]"
    by (simp add: probe_data_def zero_data_def replicate6 configure_partners_6)
  have h: "\<And>i. 0 \<le> host_ok i" by (simp add: host_ok_def)
  show ?thesis
    by (simp add: probe_configure cat3626_configure_def probe_data_facts ps
        configure_leds_step h configure_leds_done)
qed

lemma configured_run:
  "cat3626_configure host_ok 0 (probe_data 0) sample_pdata quiet_bus
     = Inr (0, configured_data, configured_bus)"
proof -
  from probe_ok_runs obtain d b where
    r: "cat3626_probe host_ok 0 sample_pdata quiet_bus = Inr (0, d, b)" by blast
  then have "configured_data = d" "configured_bus = b"
    by (simp_all add: configured_data_def configured_bus_def)
  with r show ?thesis by (simp add: probe_configure)
qed

subsection \<open>Pairing\<close>

text \<open>
  C3. After \<^verbatim>\<open>cat3626_configure\<close> has returned 0 on a chip with six channels, for every
  \<open>k\<close> in 0..2: channels \<open>2k\<close> and \<open>2k+1\<close> both have the current register \<open>k\<close>, which is
  their id shifted right by one, the partner of channel \<open>2k\<close> is slot \<open>2k+1\<close> and the
  partner of channel \<open>2k+1\<close> is slot \<open>2k\<close>.
\<close>

theorem configure_pairing:
  assumes "cat3626_configure host cl data pdata bus = Inr (0, data', bus')"
    and "num_leds (chip_info data) = 6" and "length (leds data) = 6" and "k < 3"
  shows "i2c_reg (leds data' ! (2 * k)) = of_nat k
    \<and> i2c_reg (leds data' ! (2 * k + 1)) = of_nat k
    \<and> i2c_reg (leds data' ! (2 * k)) = drop_bit 1 (led_id (leds data' ! (2 * k)))
    \<and> i2c_reg (leds data' ! (2 * k + 1)) = drop_bit 1 (led_id (leds data' ! (2 * k + 1)))
    \<and> partner (leds data' ! (2 * k)) = Some (2 * k + 1)
    \<and> partner (leds data' ! (2 * k + 1)) = Some (2 * k)"
proof -
  have a: "2 * k < 6" and b: "2 * k + 1 < 6" using assms(4) by simp_all
  note la = configure_success(2) [OF assms(1-3) a]
  note lb = configure_success(2) [OF assms(1-3) b]
  have e: "even (2 * k)" "\<not> even (2 * k + 1)" "2 * k div 2 = k" "(2 * k + 1) div 2 = k"
    by simp_all
  show ?thesis
    unfolding la lb registered_led_fields drop_bit_id [OF assms(4)]
    by (simp only: paired_led_def e if_True if_False add_diff_cancel_right') simp
qed

theorem configure_pairing_witness:
  "cat3626_configure host_ok 0 (probe_data 0) sample_pdata quiet_bus
     = Inr (0, configured_data, configured_bus)
   \<and> num_leds (chip_info (probe_data 0)) = 6 \<and> length (leds (probe_data 0)) = 6
   \<and> (1 :: nat) < 3
   \<and> i2c_reg (leds configured_data ! 2) = 1 \<and> i2c_reg (leds configured_data ! 3) = 1
   \<and> led_id (leds configured_data ! 2) = 2 \<and> led_id (leds configured_data ! 3) = 3
   \<and> partner (leds configured_data ! 2) = Some 3
   \<and> partner (leds configured_data ! 3) = Some 2"
proof -
  have i2: "led_id (leds configured_data ! 2) = 2" and i3: "led_id (leds configured_data ! 3) = 3"
    using configure_success(2) [OF configured_run probe_data_facts(1,2), of 2]
      configure_success(2) [OF configured_run probe_data_facts(1,2), of 3]
    by (simp_all add: registered_led_fields)
  from configure_pairing [OF configured_run probe_data_facts(1,2), of 1]
  have "i2c_reg (leds configured_data ! 2) = 1 \<and> i2c_reg (leds configured_data ! 3) = 1
    \<and> partner (leds configured_data ! 2) = Some 3
    \<and> partner (leds configured_data ! 3) = Some 2"
    by simp
  with i2 i3 configured_run probe_data_facts show ?thesis by simp
qed

subsection \<open>The brightness shown to the host\<close>

text \<open>
  C9. After \<^verbatim>\<open>cat3626_configure\<close> has returned 0, every channel's maximum brightness
  is \<open>39 << 3 = 312\<close> and its brightness is off (0).
\<close>

theorem configure_brightness:
  assumes "cat3626_configure host cl data pdata bus = Inr (0, data', bus')"
    and "num_leds (chip_info data) = 6" and "length (leds data) = 6" and "j < 6"
  shows "max_brightness (ldev (leds data' ! j)) = 312
    \<and> max_brightness (ldev (leds data' ! j)) = push_bit 3 39
    \<and> brightness (ldev (leds data' ! j)) = 0"
  by (simp add: configure_success(2) [OF assms] registered_led_fields LED_OFF_def)


theorem configure_brightness_witness:
  "cat3626_configure host_ok 0 (probe_data 0) sample_pdata quiet_bus
     = Inr (0, configured_data, configured_bus)
   \<and> num_leds (chip_info (probe_data 0)) = 6 \<and> length (leds (probe_data 0)) = 6
   \<and> (4 :: nat) < 6
   \<and> max_brightness (ldev (leds configured_data ! 4)) = 312
   \<and> brightness (ldev (leds configured_data ! 4)) = 0"
  using configure_brightness [OF configured_run probe_data_facts(1,2), of 4]
    configured_run probe_data_facts
  by simp

section \<open>Teardown\<close>

text \<open>
  C4 does not hold of the code. When the host refuses channel 1 with \<open>-12\<close>,
  \<^verbatim>\<open>cat3626_probe\<close> returns \<open>-12\<close>, but channel 0, registered before, is still registered:
  \<^verbatim>\<open>cat3626_destroy_devices(data, 1)\<close> touches slot 1 only.
\<close>

theorem configure_failure_keeps_channel_0:
  "\<exists>d b. cat3626_probe host_refuses_1 0 sample_pdata quiet_bus = Inr (- 12, d, b)
     \<and> length (leds d) = 6
     \<and> registered (ldev (leds d ! 0)) \<and> \<not> registered (ldev (leds d ! 1))"
proof -
  obtain a b c d e f where ps: "configure_partners 6 0 (leds (probe_data 0)) = Inr [a, b, c, d, e, f]"
    by (simp add: probe_data_def zero_data_def replicate6 configure_partners_6)
  have h: "0 \<le> host_refuses_1 0" "host_refuses_1 (Suc 0) < 0" "host_refuses_1 (Suc 0) = - 12"
    by (simp_all add: host_refuses_1_def)
  show ?thesis
    by (simp add: probe_configure cat3626_configure_def probe_data_facts ps
        configure_leds_step h configure_leds_fail registered_led_fields
        led_classdev_unregister_def)
qed

text \<open>
  C8 does not hold of the code. On the configured chip all six channels are registered,
  and \<^verbatim>\<open>cat3626_remove\<close> unregisters none of them: its one access is to slot 6.
\<close>

theorem remove_leaves_registered:
  "length (leds configured_data) = 6
   \<and> list_all (\<lambda>l. registered (ldev l)) (leds configured_data)
   \<and> cat3626_remove configured_data = Inl (OutOfBounds 6)"
proof -
  note s = configure_success [OF configured_run probe_data_facts(1,2)]
  from s(1) obtain a b c d e f where ls: "leds configured_data = [a, b, c, d, e, f]"
    by (rule length6)
  have "registered (ldev (leds configured_data ! 0))" "registered (ldev (leds configured_data ! 1))"
    "registered (ldev (leds configured_data ! 2))" "registered (ldev (leds configured_data ! 3))"
    "registered (ldev (leds configured_data ! 4))" "registered (ldev (leds configured_data ! 5))"
    by (simp_all add: s(2) registered_led_fields)
  then have "list_all (\<lambda>l. registered (ldev l)) (leds configured_data)"
    by (simp add: ls)
  moreover have "num_leds (chip_info configured_data) = 6"
    by (simp add: s(3) probe_data_facts)
  ultimately show ?thesis
    using s(1) by (simp add: cat3626_remove_def cat3626_destroy_devices_def)
qed


text \<open>
  C10 does not hold of the code. For every chip whose chip information is the table's
  entry (six channels), \<^verbatim>\<open>cat3626_remove\<close> accesses \<^verbatim>\<open>leds[6]\<close>, outside the array.
\<close>

theorem remove_out_of_bounds:
  "cat3626_remove (d\<lparr>chip_info := cat3626_chip_info_tbl\<rparr>) = Inl (OutOfBounds 6)"
  by (simp add: cat3626_remove_def cat3626_destroy_devices_def cat3626_chip_info_tbl_def)

end
